theory Spec2Isabelle
  imports Main "HOL-Library.Word"
begin

section \<open>The polaris resolver of registry-polaris\<close>

text \<open>
  The repository holds two resolvers of package \<open>polaris\<close>:
  \<^item> \<open>src/resolver.go\<close>: the receiver \<open>polarisResolver\<close> with \<open>Target\<close>,
    \<open>Watcher\<close> and \<open>Resolve\<close>;
  \<^item> \<open>src/unnamed/part_000\<close>: the receiver \<open>PolarisResolver\<close> with \<open>Target\<close>
    and \<open>Resolve\<close>, which translates the registry's instances inline.
  Both are embedded below, the second under the prefix \<open>PolarisResolver_\<close>.
\<close>

subsection \<open>Constants\<close>

definition defaultWeight :: int where
  "defaultWeight = 10"

definition polarisDefaultNamespace :: string where
  "polarisDefaultNamespace = ''default''"

subsection \<open>Data of the collaborators\<close>

text \<open>
  \<open>model.Instance\<close> of the registry client, read through its getters:
  \<open>GetHost() string\<close>, \<open>GetPort() uint32\<close>, \<open>GetProtocol() string\<close>,
  \<open>GetWeight() int\<close>. The weight is only compared and copied, never computed
  with, so Go's \<open>int\<close> is \<open>int\<close> here.
\<close>

record model_Instance =
  GetHost :: string
  GetPort :: "32 word"
  GetProtocol :: string
  GetWeight :: int

text \<open>
  \<open>discovery.Instance\<close> as \<open>discovery.NewInstance(network, address, weight, tags)\<close>
  builds it. A nil tag map is the empty map.
\<close>

record discovery_Instance =
  network :: string
  address :: string
  weight :: int
  tags :: "string \<rightharpoonup> string"

definition NewInstance ::
  "string \<Rightarrow> string \<Rightarrow> int \<Rightarrow> (string \<rightharpoonup> string) \<Rightarrow> discovery_Instance" where
  "NewInstance n a w t = \<lparr>network = n, address = a, weight = w, tags = t\<rparr>"

text \<open>
  \<open>discovery.Result\<close> and \<open>discovery.Change\<close>. A Go slice that is nil or of
  length 0 is the empty list; \<open>discovery.Result{}\<close> and \<open>discovery.Change{}\<close>
  are the zero values.
\<close>

record discovery_Result =
  Cacheable :: bool
  CacheKey :: string
  Instances :: "discovery_Instance list"

record discovery_Change =
  Result :: discovery_Result
  Added :: "discovery_Instance list"
  Updated :: "discovery_Instance list"
  Removed :: "discovery_Instance list"

definition zero_Result :: discovery_Result where
  "zero_Result = \<lparr>Cacheable = False, CacheKey = [], Instances = []\<rparr>"

definition zero_Change :: discovery_Change where
  "zero_Change = \<lparr>Result = zero_Result, Added = [], Updated = [], Removed = []\<rparr>"

text \<open>
  Go errors. \<open>ClientError e\<close> is an error value handed back by the registry
  client; \<open>Errorf m\<close> is \<open>fmt.Errorf\<close> with the formatted message \<open>m\<close>.
\<close>

datatype error = ClientError string | Errorf string

text \<open>
  How an invocation ends: it returns a value to its caller; the process is
  ended by a fatal log call; a nil pointer or nil interface is dereferenced, or
  a type assertion fails (a Go panic); or it waits for ever.
\<close>

datatype 'a outcome = Returned 'a | Exited | Panicked | Blocked

subsection \<open>The registry client\<close>

record ServiceKey =
  Namespace :: string
  Service :: string

record GetInstancesRequest =
  req_Namespace :: string
  req_Service :: string

record WatchServiceRequest =
  Key :: ServiceKey

text \<open>
  \<open>model.InstancesResponse\<close>: the slice \<open>Instances\<close>, which the code tests
  against nil, so \<open>None\<close> is the nil slice.
\<close>

record InstancesResponse =
  GetInstances :: "model_Instance list option"

text \<open>
  \<open>model.WatchServiceResponse\<close>: \<open>GetAllInstancesResp\<close> is a pointer, \<open>None\<close>
  when nil. Its \<open>EventChannel\<close> is read only by the \<open>select\<close> of \<open>Watcher\<close>,
  whose outcome is the value \<open>select_case\<close> below.
\<close>

record WatchServiceResponse =
  GetAllInstancesResp :: "InstancesResponse option"

text \<open>
  \<open>api.ConsumerAPI\<close>: a call gives either the error (and a nil response) or the
  response.
\<close>

record ConsumerAPI =
  consumer_GetInstances :: "GetInstancesRequest \<Rightarrow> error + InstancesResponse"
  consumer_WatchService :: "WatchServiceRequest \<Rightarrow> error + WatchServiceResponse"

record polarisResolver =
  consumer :: ConsumerAPI

text \<open>The calls an invocation makes to the registry client, in order.\<close>

datatype RegistryCall =
  GetInstancesCall GetInstancesRequest
| WatchServiceCall WatchServiceRequest

subsection \<open>Subscription events\<close>

record InstanceAddEvent =
  AddEvent_Instances :: "model_Instance list"

record OneInstanceUpdate =
  Before :: model_Instance
  After :: model_Instance

record InstanceUpdateEvent =
  UpdateList :: "OneInstanceUpdate list"

record InstanceDeleteEvent =
  DeleteEvent_Instances :: "model_Instance list"

text \<open>\<open>model.InstanceEvent\<close>: three pointers, \<open>None\<close> when nil.\<close>

record InstanceEvent =
  AddEvent :: "InstanceAddEvent option"
  UpdateEvent :: "InstanceUpdateEvent option"
  DeleteEvent :: "InstanceDeleteEvent option"

datatype SubScribeEventType = EventInstance | EventOther nat

text \<open>
  \<open>model.SubScribeEvent\<close> is an interface: a value is a \<open>*model.InstanceEvent\<close>,
  whose kind is \<open>EventInstance\<close>, or a value of another dynamic type, which
  reports a kind of its own.
\<close>

datatype SubScribeEvent =
  InstanceEventPtr InstanceEvent
| OtherEvent SubScribeEventType

fun GetSubScribeEventType :: "SubScribeEvent \<Rightarrow> SubScribeEventType" where
  "GetSubScribeEventType (InstanceEventPtr e) = EventInstance"
| "GetSubScribeEventType (OtherEvent t) = t"

text \<open>
  The outcome of \<open>select\<close> over \<open>ctx.Done()\<close> and the event channel: the
  context is done first, an event is received first, the channel is closed (the
  receive gives the nil interface), or neither is ever ready.
\<close>

datatype select_case = CtxDone | Recv SubScribeEvent | RecvClosed | NeverReady

subsection \<open>Strings\<close>

text \<open>\<open>strconv.Itoa\<close>: the decimal digits of an integer.\<close>

definition digit :: "nat \<Rightarrow> char" where
  "digit d = ''0123456789'' ! d"

fun FormatUint :: "nat \<Rightarrow> string" where
  "FormatUint n = (if n < 10 then [digit n] else FormatUint (n div 10) @ [digit (n mod 10)])"

definition Itoa :: "int \<Rightarrow> string" where
  "Itoa i = (if i < 0 then CHR ''-'' # FormatUint (nat (- i)) else FormatUint (nat i))"

text \<open>\<open>strings.Builder\<close>: the text written so far; \<open>WriteString\<close> appends.\<close>

definition WriteString :: "string \<Rightarrow> string \<Rightarrow> string" where
  "WriteString b s = b @ s"

subsection \<open>\<open>rpcinfo.EndpointInfo\<close> and \<open>Target\<close>\<close>

text \<open>
  \<open>Tag(key)\<close> gives the value and whether the tag exists: a lookup in the map
  of tags.
\<close>

record EndpointInfo =
  ServiceName :: string
  Tag :: "string \<rightharpoonup> string"

text \<open>\<open>Target\<close> of \<open>src/resolver.go\<close>.\<close>

definition Target :: "EndpointInfo \<Rightarrow> string" where
  "Target target =
     (let serviceIdentification = [];
          serviceIdentification =
            (case Tag target ''namespace'' of
               Some namespace \<Rightarrow> WriteString serviceIdentification namespace
             | None \<Rightarrow> WriteString serviceIdentification polarisDefaultNamespace);
          serviceIdentification = WriteString serviceIdentification '':'';
          serviceIdentification = WriteString serviceIdentification (ServiceName target)
      in serviceIdentification)"

text \<open>\<open>Target\<close> of \<open>src/unnamed/part_000\<close>.\<close>

definition PolarisResolver_Target :: "EndpointInfo \<Rightarrow> string" where
  "PolarisResolver_Target target = ServiceName target"

subsection \<open>The range loops\<close>

text \<open>
  \<open>for _, x := range xs { acc = append(acc, f(x)) }\<close>: the loop of \<open>Resolve\<close>
  and \<open>Watcher\<close> over instances (\<open>f\<close> translates one) and over update pairs
  (\<open>f\<close> translates the pair's \<open>After\<close>).
\<close>

fun range_append :: "('a \<Rightarrow> 'b) \<Rightarrow> 'b list \<Rightarrow> 'a list \<Rightarrow> 'b list" where
  "range_append f acc [] = acc"
| "range_append f acc (x # xs) = range_append f (acc @ [f x]) xs"

subsection \<open>\<open>Resolve\<close> of \<open>src/unnamed/part_000\<close>\<close>

text \<open>
  The body of its range loop, lines 110 to 115: the weight rule, the address
  and \<open>discovery.NewInstance\<close>. \<open>info\<close> is the zero \<open>instanceInfo\<close>, so
  \<open>info.Tags\<close> is the nil map. \<open>int(instance.GetPort())\<close> converts a
  \<open>uint32\<close> to Go's \<open>int\<close>, taken as 64 bits wide, which keeps the value.
\<close>

definition PolarisResolver_Resolve_body :: "model_Instance \<Rightarrow> discovery_Instance" where
  "PolarisResolver_Resolve_body instance =
     (let weight = GetWeight instance;
          weight = (if weight \<le> 0 then defaultWeight else weight);
          addr = GetHost instance @ '':'' @ Itoa (uint (GetPort instance))
      in NewInstance (GetProtocol instance) addr weight Map.empty)"

text \<open>
  The standard library's \<open>log.Fatalf\<close> prints and ends the process, so the
  invocation ends with \<open>Exited\<close> when the query fails. The first component is
  the list of calls made to the registry client.
\<close>

definition PolarisResolver_Resolve ::
  "polarisResolver \<Rightarrow> string \<Rightarrow>
     RegistryCall list \<times> (discovery_Result \<times> error option) outcome" where
  "PolarisResolver_Resolve polaris desc =
     (let getOneRequest = \<lparr>req_Namespace = polarisDefaultNamespace, req_Service = desc\<rparr>;
          calls = [GetInstancesCall getOneRequest]
      in case consumer_GetInstances (consumer polaris) getOneRequest of
           Inl err \<Rightarrow> (calls, Exited)
         | Inr oneInstResp \<Rightarrow>
             (let instances = GetInstances oneInstResp;
                  eps = (case instances of
                           None \<Rightarrow> []
                         | Some is \<Rightarrow> range_append PolarisResolver_Resolve_body [] is)
              in if length eps = 0
                 then (calls, Returned (zero_Result, Some (Errorf (''no instance remains for '' @ desc))))
                 else (calls, Returned (\<lparr>Cacheable = True, CacheKey = desc, Instances = eps\<rparr>, None))))"

subsection \<open>\<open>Watcher\<close> and \<open>Resolve\<close> of \<open>src/resolver.go\<close>\<close>

text \<open>
  What \<open>src/resolver.go\<close> uses of its package and of the registry client's
  logger without their code being in the sources, taken as parameters:
  \<^item> \<open>SplitDescription\<close>, from a description to namespace and service name;
  \<^item> \<open>ChangePolarisInstanceToKitex\<close>, the translation of one instance;
  \<^item> whether \<open>log.GetBaseLogger().Fatalf\<close> ends the process. When it does not,
    the code goes on to read the response, which is nil after an error.
\<close>

record package_deps =
  SplitDescription :: "string \<Rightarrow> string \<times> string"
  ChangePolarisInstanceToKitex :: "model_Instance \<Rightarrow> discovery_Instance"
  Fatalf_exits :: bool

definition Watcher ::
  "package_deps \<Rightarrow> polarisResolver \<Rightarrow> select_case \<Rightarrow> string \<Rightarrow>
     RegistryCall list \<times> (discovery_Change \<times> error option) outcome" where
  "Watcher deps polaris sel desc =
     (let (namespace, serviceName) = SplitDescription deps desc;
          key = \<lparr>Namespace = namespace, Service = serviceName\<rparr>;
          watchReq = \<lparr>Key = key\<rparr>;
          calls = [WatchServiceCall watchReq]
      in case consumer_WatchService (consumer polaris) watchReq of
           Inl err \<Rightarrow> (calls, if Fatalf_exits deps then Exited else Panicked)
         | Inr watchRsp \<Rightarrow>
             (case GetAllInstancesResp watchRsp of
                None \<Rightarrow> (calls, Panicked)
              | Some allResp \<Rightarrow>
                  (let instances = GetInstances allResp;
                       eps = (case instances of
                                None \<Rightarrow> []
                              | Some is \<Rightarrow> range_append (ChangePolarisInstanceToKitex deps) [] is);
                       result = \<lparr>Cacheable = True, CacheKey = desc, Instances = eps\<rparr>;
                       Change = zero_Change
                   in case sel of
                        NeverReady \<Rightarrow> (calls, Blocked)
                      | CtxDone \<Rightarrow> (calls, Returned (Change, None))
                      | RecvClosed \<Rightarrow> (calls, Panicked)
                      | Recv event \<Rightarrow>
                          (if GetSubScribeEventType event = EventInstance
                           then (case event of
                                   OtherEvent t \<Rightarrow> (calls, Panicked)
                                 | InstanceEventPtr insEvent \<Rightarrow>
                                     (let add = (case AddEvent insEvent of
                                                   None \<Rightarrow> []
                                                 | Some e \<Rightarrow>
                                                     range_append (ChangePolarisInstanceToKitex deps) []
                                                       (AddEvent_Instances e));
                                          update = (case UpdateEvent insEvent of
                                                      None \<Rightarrow> []
                                                    | Some e \<Rightarrow>
                                                        range_append
                                                          (\<lambda>u. ChangePolarisInstanceToKitex deps (After u)) []
                                                          (UpdateList e));
                                          remove = (case DeleteEvent insEvent of
                                                      None \<Rightarrow> []
                                                    | Some e \<Rightarrow>
                                                        range_append (ChangePolarisInstanceToKitex deps) []
                                                          (DeleteEvent_Instances e));
                                          Change = \<lparr>Result = result, Added = add,
                                                    Updated = update, Removed = remove\<rparr>
                                      in (calls, Returned (Change, None))))
                           else (calls, Returned (Change, None))))))"

definition Resolve ::
  "package_deps \<Rightarrow> polarisResolver \<Rightarrow> string \<Rightarrow>
     RegistryCall list \<times> (discovery_Result \<times> error option) outcome" where
  "Resolve deps polaris desc =
     (let (namespace, serviceName) = SplitDescription deps desc;
          getInstances = \<lparr>req_Namespace = namespace, req_Service = serviceName\<rparr>;
          calls = [GetInstancesCall getInstances]
      in case consumer_GetInstances (consumer polaris) getInstances of
           Inl err \<Rightarrow> (calls, if Fatalf_exits deps then Exited else Panicked)
         | Inr InstanceResp \<Rightarrow>
             (let instances = GetInstances InstanceResp;
                  eps = (case instances of
                           None \<Rightarrow> []
                         | Some is \<Rightarrow> range_append (ChangePolarisInstanceToKitex deps) [] is)
              in if length eps = 0
                 then (calls, Returned (zero_Result, Some (Errorf (''no instance remains for '' @ desc))))
                 else (calls, Returned (\<lparr>Cacheable = True, CacheKey = desc, Instances = eps\<rparr>, None))))"

subsection \<open>Reading a slice\<close>

text \<open>The elements of a slice that may be nil: none when it is nil.\<close>

definition nil_to_empty :: "'a list option \<Rightarrow> 'a list" where
  "nil_to_empty s = (case s of None \<Rightarrow> [] | Some xs \<Rightarrow> xs)"

subsection \<open>An example registry\<close>

text \<open>
  The registry of the specification's scenarios: service \<open>orders\<close> has the
  instances \<open>10.0.0.1:8080\<close> of weight 0 and \<open>10.0.0.2:8080\<close> of weight 5,
  service \<open>ghost\<close> has none (an empty slice), service \<open>void\<close> has none (a nil
  slice), and every other service is unknown to the registry, whose call then
  gives an error. \<open>10.0.0.3:9090\<close> is the instance the watch scenario adds.
\<close>

definition ex_i1 :: model_Instance where
  "ex_i1 = \<lparr>GetHost = ''10.0.0.1'', GetPort = 8080, GetProtocol = ''tcp'', GetWeight = 0\<rparr>"

definition ex_i2 :: model_Instance where
  "ex_i2 = \<lparr>GetHost = ''10.0.0.2'', GetPort = 8080, GetProtocol = ''tcp'', GetWeight = 5\<rparr>"

definition ex_i3 :: model_Instance where
  "ex_i3 = \<lparr>GetHost = ''10.0.0.3'', GetPort = 9090, GetProtocol = ''tcp'', GetWeight = -1\<rparr>"

definition ex_members :: "string \<Rightarrow> error + InstancesResponse" where
  "ex_members service =
     (if service = ''orders'' then Inr \<lparr>GetInstances = Some [ex_i1, ex_i2]\<rparr>
      else if service = ''ghost'' then Inr \<lparr>GetInstances = Some []\<rparr>
      else if service = ''void'' then Inr \<lparr>GetInstances = None\<rparr>
      else Inl (ClientError ''unknown service''))"

definition ex_consumer :: ConsumerAPI where
  "ex_consumer =
     \<lparr>consumer_GetInstances = (\<lambda>req. ex_members (req_Service req)),
      consumer_WatchService =
        (\<lambda>req. case ex_members (Service (Key req)) of
                  Inl err \<Rightarrow> Inl err
                | Inr resp \<Rightarrow> Inr \<lparr>GetAllInstancesResp = Some resp\<rparr>)\<rparr>"

definition ex_polaris :: polarisResolver where
  "ex_polaris = \<lparr>consumer = ex_consumer\<rparr>"

text \<open>
  Modelled from the spec: \<open>SplitDescription\<close>, which \<open>src/resolver.go\<close> calls
  and the sources do not hold. The specification parses the canonical string
  back by splitting on the first \<open>:\<close>. Only the examples use it.
\<close>

definition ex_SplitDescription :: "string \<Rightarrow> string \<times> string" where
  "ex_SplitDescription desc =
     (takeWhile (\<lambda>c. c \<noteq> CHR '':'') desc, drop 1 (dropWhile (\<lambda>c. c \<noteq> CHR '':'') desc))"

text \<open>
  The parameters of the examples: the translation of one instance is the one
  \<open>src/unnamed/part_000\<close> performs inline.
\<close>

definition ex_deps :: "bool \<Rightarrow> package_deps" where
  "ex_deps exits =
     \<lparr>SplitDescription = ex_SplitDescription,
      ChangePolarisInstanceToKitex = PolarisResolver_Resolve_body,
      Fatalf_exits = exits\<rparr>"

definition ex_add_event :: InstanceEvent where
  "ex_add_event =
     \<lparr>AddEvent = Some \<lparr>AddEvent_Instances = [ex_i3]\<rparr>, UpdateEvent = None, DeleteEvent = None\<rparr>"

definition ex_full_event :: InstanceEvent where
  "ex_full_event =
     \<lparr>AddEvent = Some \<lparr>AddEvent_Instances = [ex_i3]\<rparr>,
      UpdateEvent = Some \<lparr>UpdateList = [\<lparr>Before = ex_i1, After = ex_i2\<rparr>]\<rparr>,
      DeleteEvent = Some \<lparr>DeleteEvent_Instances = [ex_i1]\<rparr>\<rparr>"

definition ex_no_event :: InstanceEvent where
  "ex_no_event = \<lparr>AddEvent = None, UpdateEvent = None, DeleteEvent = None\<rparr>"

section \<open>Properties\<close>

subsection \<open>What the operations compute\<close>

lemma range_append_map: "range_append f acc xs = acc @ map f xs"
  by (induction xs arbitrary: acc) auto

lemma Resolve_calls:
  "fst (Resolve deps polaris desc) =
     [GetInstancesCall \<lparr>req_Namespace = fst (SplitDescription deps desc),
                        req_Service = snd (SplitDescription deps desc)\<rparr>]"
  by (simp add: Resolve_def Let_def case_prod_beta split: sum.splits)

lemma Resolve_query_failed:
  assumes "consumer_GetInstances (consumer polaris)
             \<lparr>req_Namespace = fst (SplitDescription deps desc),
              req_Service = snd (SplitDescription deps desc)\<rparr> = Inl err"
  shows "snd (Resolve deps polaris desc) = (if Fatalf_exits deps then Exited else Panicked)"
  using assms by (simp add: Resolve_def Let_def case_prod_beta)

lemma Resolve_query_answered:
  assumes "consumer_GetInstances (consumer polaris)
             \<lparr>req_Namespace = fst (SplitDescription deps desc),
              req_Service = snd (SplitDescription deps desc)\<rparr> = Inr resp"
  shows "snd (Resolve deps polaris desc) =
           (if nil_to_empty (GetInstances resp) = []
            then Returned (zero_Result, Some (Errorf (''no instance remains for '' @ desc)))
            else Returned (\<lparr>Cacheable = True, CacheKey = desc,
                             Instances = map (ChangePolarisInstanceToKitex deps)
                                           (nil_to_empty (GetInstances resp))\<rparr>, None))"
  using assms
  by (simp add: Resolve_def Let_def case_prod_beta range_append_map nil_to_empty_def
           split: option.splits)

lemma PolarisResolver_Resolve_calls:
  "fst (PolarisResolver_Resolve polaris desc) =
     [GetInstancesCall \<lparr>req_Namespace = polarisDefaultNamespace, req_Service = desc\<rparr>]"
  by (simp add: PolarisResolver_Resolve_def Let_def split: sum.splits)

lemma PolarisResolver_Resolve_query_failed:
  assumes "consumer_GetInstances (consumer polaris)
             \<lparr>req_Namespace = polarisDefaultNamespace, req_Service = desc\<rparr> = Inl err"
  shows "snd (PolarisResolver_Resolve polaris desc) = Exited"
  using assms by (simp add: PolarisResolver_Resolve_def Let_def)

lemma PolarisResolver_Resolve_query_answered:
  assumes "consumer_GetInstances (consumer polaris)
             \<lparr>req_Namespace = polarisDefaultNamespace, req_Service = desc\<rparr> = Inr resp"
  shows "snd (PolarisResolver_Resolve polaris desc) =
           (if nil_to_empty (GetInstances resp) = []
            then Returned (zero_Result, Some (Errorf (''no instance remains for '' @ desc)))
            else Returned (\<lparr>Cacheable = True, CacheKey = desc,
                             Instances = map PolarisResolver_Resolve_body
                                           (nil_to_empty (GetInstances resp))\<rparr>, None))"
  using assms
  by (simp add: PolarisResolver_Resolve_def Let_def range_append_map nil_to_empty_def
           split: option.splits)

lemma Watcher_calls:
  "fst (Watcher deps polaris sel desc) =
     [WatchServiceCall \<lparr>Key = \<lparr>Namespace = fst (SplitDescription deps desc),
                                 Service = snd (SplitDescription deps desc)\<rparr>\<rparr>]"
  by (simp add: Watcher_def Let_def case_prod_beta
           split: sum.splits option.splits select_case.splits SubScribeEvent.splits)

lemma Watcher_open_failed:
  assumes "consumer_WatchService (consumer polaris)
             \<lparr>Key = \<lparr>Namespace = fst (SplitDescription deps desc),
                      Service = snd (SplitDescription deps desc)\<rparr>\<rparr> = Inl err"
  shows "snd (Watcher deps polaris sel desc) = (if Fatalf_exits deps then Exited else Panicked)"
  using assms by (simp add: Watcher_def Let_def case_prod_beta)

lemma Watcher_opened:
  assumes "consumer_WatchService (consumer polaris)
             \<lparr>Key = \<lparr>Namespace = fst (SplitDescription deps desc),
                      Service = snd (SplitDescription deps desc)\<rparr>\<rparr> = Inr watchRsp"
    and "GetAllInstancesResp watchRsp = Some allResp"
  shows "snd (Watcher deps polaris sel desc) =
     (case sel of
        NeverReady \<Rightarrow> Blocked
      | CtxDone \<Rightarrow> Returned (zero_Change, None)
      | RecvClosed \<Rightarrow> Panicked
      | Recv (OtherEvent t) \<Rightarrow>
          (if t = EventInstance then Panicked else Returned (zero_Change, None))
      | Recv (InstanceEventPtr insEvent) \<Rightarrow>
          Returned
            (\<lparr>Result = \<lparr>Cacheable = True, CacheKey = desc,
                         Instances = map (ChangePolarisInstanceToKitex deps)
                                       (nil_to_empty (GetInstances allResp))\<rparr>,
              Added = map (ChangePolarisInstanceToKitex deps)
                        (case AddEvent insEvent of None \<Rightarrow> [] | Some e \<Rightarrow> AddEvent_Instances e),
              Updated = map (\<lambda>u. ChangePolarisInstanceToKitex deps (After u))
                          (case UpdateEvent insEvent of None \<Rightarrow> [] | Some e \<Rightarrow> UpdateList e),
              Removed = map (ChangePolarisInstanceToKitex deps)
                          (case DeleteEvent insEvent of
                             None \<Rightarrow> [] | Some e \<Rightarrow> DeleteEvent_Instances e)\<rparr>,
             None))"
  using assms
  by (simp add: Watcher_def Let_def case_prod_beta range_append_map nil_to_empty_def
           split: option.splits select_case.splits SubScribeEvent.splits)

subsection \<open>The example registry, evaluated\<close>

lemma ex_split [simp]:
  "ex_SplitDescription ''default:orders'' = (''default'', ''orders'')"
  "ex_SplitDescription ''default:ghost'' = (''default'', ''ghost'')"
  "ex_SplitDescription ''default:void'' = (''default'', ''void'')"
  "ex_SplitDescription ''default:broken'' = (''default'', ''broken'')"
  by (simp_all add: ex_SplitDescription_def)

lemma ex_members_simps [simp]:
  "ex_members ''orders'' = Inr \<lparr>GetInstances = Some [ex_i1, ex_i2]\<rparr>"
  "ex_members ''ghost'' = Inr \<lparr>GetInstances = Some []\<rparr>"
  "ex_members ''void'' = Inr \<lparr>GetInstances = None\<rparr>"
  "ex_members ''broken'' = Inl (ClientError ''unknown service'')"
  by (simp_all add: ex_members_def)

lemma ex_body [simp]:
  "PolarisResolver_Resolve_body ex_i1 =
     \<lparr>network = ''tcp'', address = ''10.0.0.1:8080'', weight = 10, tags = Map.empty\<rparr>"
  "PolarisResolver_Resolve_body ex_i2 =
     \<lparr>network = ''tcp'', address = ''10.0.0.2:8080'', weight = 5, tags = Map.empty\<rparr>"
  "PolarisResolver_Resolve_body ex_i3 =
     \<lparr>network = ''tcp'', address = ''10.0.0.3:9090'', weight = 10, tags = Map.empty\<rparr>"
  by (simp_all add: PolarisResolver_Resolve_body_def NewInstance_def Itoa_def digit_def
        defaultWeight_def ex_i1_def ex_i2_def ex_i3_def)

section \<open>The claims\<close>

text \<open>
  C1. A \<open>Watcher\<close> invocation whose subscription opened with a snapshot and
  that receives an instance event returns, with a nil error, the change whose
  \<open>Added\<close> is the translation of the event's added instances in their order,
  whose \<open>Updated\<close> is the translation of the \<open>After\<close> of each update pair in
  order (no \<open>Before\<close> is read), whose \<open>Removed\<close> is the translation of the
  removed instances in order, and whose \<open>Result\<close> is built from the snapshot
  the subscription carried when it opened: cacheable, keyed by the description,
  its instances the translated snapshot, whatever the event holds. A sub-event
  that is nil gives the empty list.
\<close>

theorem Watcher_instance_event:
  assumes "consumer_WatchService (consumer polaris)
             \<lparr>Key = \<lparr>Namespace = fst (SplitDescription deps desc),
                      Service = snd (SplitDescription deps desc)\<rparr>\<rparr> = Inr watchRsp"
    and "GetAllInstancesResp watchRsp = Some allResp"
  shows "snd (Watcher deps polaris (Recv (InstanceEventPtr insEvent)) desc) =
           Returned
             (\<lparr>Result = \<lparr>Cacheable = True, CacheKey = desc,
                          Instances = map (ChangePolarisInstanceToKitex deps)
                                        (nil_to_empty (GetInstances allResp))\<rparr>,
               Added = map (ChangePolarisInstanceToKitex deps)
                         (case AddEvent insEvent of None \<Rightarrow> [] | Some e \<Rightarrow> AddEvent_Instances e),
               Updated = map (ChangePolarisInstanceToKitex deps)
                           (map After
                              (case UpdateEvent insEvent of None \<Rightarrow> [] | Some e \<Rightarrow> UpdateList e)),
               Removed = map (ChangePolarisInstanceToKitex deps)
                           (case DeleteEvent insEvent of
                              None \<Rightarrow> [] | Some e \<Rightarrow> DeleteEvent_Instances e)\<rparr>,
              None)"
  using Watcher_opened [OF assms, of "Recv (InstanceEventPtr insEvent)"]
  by (simp add: comp_def)

theorem Watcher_instance_event_witness:
  "consumer_WatchService (consumer ex_polaris)
     \<lparr>Key = \<lparr>Namespace = fst (SplitDescription (ex_deps True) ''default:orders''),
              Service = snd (SplitDescription (ex_deps True) ''default:orders'')\<rparr>\<rparr>
     = Inr \<lparr>GetAllInstancesResp = Some \<lparr>GetInstances = Some [ex_i1, ex_i2]\<rparr>\<rparr>
   \<and> snd (Watcher (ex_deps True) ex_polaris (Recv (InstanceEventPtr ex_full_event))
            ''default:orders'') =
       Returned
         (\<lparr>Result = \<lparr>Cacheable = True, CacheKey = ''default:orders'',
                      Instances =
                        [\<lparr>network = ''tcp'', address = ''10.0.0.1:8080'', weight = 10,
                          tags = Map.empty\<rparr>,
                         \<lparr>network = ''tcp'', address = ''10.0.0.2:8080'', weight = 5,
                          tags = Map.empty\<rparr>]\<rparr>,
           Added = [\<lparr>network = ''tcp'', address = ''10.0.0.3:9090'', weight = 10,
                     tags = Map.empty\<rparr>],
           Updated = [\<lparr>network = ''tcp'', address = ''10.0.0.2:8080'', weight = 5,
                       tags = Map.empty\<rparr>],
           Removed = [\<lparr>network = ''tcp'', address = ''10.0.0.1:8080'', weight = 10,
                       tags = Map.empty\<rparr>]\<rparr>,
          None)"
  using Watcher_instance_event [of ex_polaris "ex_deps True" "''default:orders''"
      "\<lparr>GetAllInstancesResp = Some \<lparr>GetInstances = Some [ex_i1, ex_i2]\<rparr>\<rparr>"
      "\<lparr>GetInstances = Some [ex_i1, ex_i2]\<rparr>" ex_full_event]
  by (simp add: ex_polaris_def ex_consumer_def ex_deps_def ex_full_event_def nil_to_empty_def)

text \<open>
  C2. \<open>Resolve\<close> returns the error \<open>no instance remains for\<close> the
  description, beside the zero result, if and only if the registry's query for
  the key answered (a response and no error) with an instance slice that is nil
  or empty; it returns no other error; and it never returns a nil error beside
  a result without instances. Both hold of \<open>Resolve\<close> in \<open>src/resolver.go\<close>, whose key is the
  split description, and of \<open>Resolve\<close> in \<open>src/unnamed/part_000\<close>, whose key
  is the default namespace and the description.
\<close>

theorem Resolve_no_instances_iff:
  "(snd (Resolve deps polaris desc) =
      Returned (zero_Result, Some (Errorf (''no instance remains for '' @ desc)))
    \<longleftrightarrow> (\<exists>resp. consumer_GetInstances (consumer polaris)
                    \<lparr>req_Namespace = fst (SplitDescription deps desc),
                     req_Service = snd (SplitDescription deps desc)\<rparr> = Inr resp
                \<and> (GetInstances resp = None \<or> GetInstances resp = Some [])))
   \<and> \<not> (\<exists>res e. snd (Resolve deps polaris desc) = Returned (res, Some e)
                \<and> e \<noteq> Errorf (''no instance remains for '' @ desc))
   \<and> \<not> (\<exists>res. snd (Resolve deps polaris desc) = Returned (res, None) \<and> Instances res = [])
   \<and> (snd (PolarisResolver_Resolve polaris desc) =
        Returned (zero_Result, Some (Errorf (''no instance remains for '' @ desc)))
      \<longleftrightarrow> (\<exists>resp. consumer_GetInstances (consumer polaris)
                      \<lparr>req_Namespace = polarisDefaultNamespace, req_Service = desc\<rparr> = Inr resp
                  \<and> (GetInstances resp = None \<or> GetInstances resp = Some [])))
   \<and> \<not> (\<exists>res e. snd (PolarisResolver_Resolve polaris desc) = Returned (res, Some e)
                \<and> e \<noteq> Errorf (''no instance remains for '' @ desc))
   \<and> \<not> (\<exists>res. snd (PolarisResolver_Resolve polaris desc) = Returned (res, None)
              \<and> Instances res = [])"
proof -
  let ?req = "\<lparr>req_Namespace = fst (SplitDescription deps desc),
               req_Service = snd (SplitDescription deps desc)\<rparr>"
  let ?oreq = "\<lparr>req_Namespace = polarisDefaultNamespace, req_Service = desc\<rparr>"
  have empty_iff: "nil_to_empty s = [] \<longleftrightarrow> s = None \<or> s = Some []" for s :: "model_Instance list option"
    by (cases s) (simp_all add: nil_to_empty_def)
  have A: "snd (Resolve deps polaris desc) =
      Returned (zero_Result, Some (Errorf (''no instance remains for '' @ desc)))
    \<longleftrightarrow> (\<exists>resp. consumer_GetInstances (consumer polaris) ?req = Inr resp
                \<and> (GetInstances resp = None \<or> GetInstances resp = Some []))"
  proof (cases "consumer_GetInstances (consumer polaris) ?req")
    case (Inl err)
    then show ?thesis using Resolve_query_failed [OF Inl] by simp
  next
    case (Inr resp)
    then show ?thesis using Resolve_query_answered [OF Inr] by (simp add: empty_iff)
  qed
  have B: "\<not> (\<exists>res. snd (Resolve deps polaris desc) = Returned (res, None) \<and> Instances res = [])"
  proof (cases "consumer_GetInstances (consumer polaris) ?req")
    case (Inl err)
    then show ?thesis using Resolve_query_failed [OF Inl] by simp
  next
    case (Inr resp)
    then show ?thesis using Resolve_query_answered [OF Inr] by auto
  qed
  have C: "snd (PolarisResolver_Resolve polaris desc) =
        Returned (zero_Result, Some (Errorf (''no instance remains for '' @ desc)))
      \<longleftrightarrow> (\<exists>resp. consumer_GetInstances (consumer polaris) ?oreq = Inr resp
                  \<and> (GetInstances resp = None \<or> GetInstances resp = Some []))"
  proof (cases "consumer_GetInstances (consumer polaris) ?oreq")
    case (Inl err)
    then show ?thesis using PolarisResolver_Resolve_query_failed [OF Inl] by simp
  next
    case (Inr resp)
    then show ?thesis using PolarisResolver_Resolve_query_answered [OF Inr] by (simp add: empty_iff)
  qed
  have D: "\<not> (\<exists>res. snd (PolarisResolver_Resolve polaris desc) = Returned (res, None)
              \<and> Instances res = [])"
  proof (cases "consumer_GetInstances (consumer polaris) ?oreq")
    case (Inl err)
    then show ?thesis using PolarisResolver_Resolve_query_failed [OF Inl] by simp
  next
    case (Inr resp)
    then show ?thesis using PolarisResolver_Resolve_query_answered [OF Inr] by auto
  qed
  have E: "\<not> (\<exists>res e. snd (Resolve deps polaris desc) = Returned (res, Some e)
                \<and> e \<noteq> Errorf (''no instance remains for '' @ desc))"
  proof (cases "consumer_GetInstances (consumer polaris) ?req")
    case (Inl err)
    then show ?thesis
      using Resolve_query_failed [OF Inl] by simp
  next
    case (Inr resp)
    then show ?thesis
      using Resolve_query_answered [OF Inr] by auto
  qed
  have F: "\<not> (\<exists>res e. snd (PolarisResolver_Resolve polaris desc) = Returned (res, Some e)
                \<and> e \<noteq> Errorf (''no instance remains for '' @ desc))"
  proof (cases "consumer_GetInstances (consumer polaris) ?oreq")
    case (Inl err)
    then show ?thesis
      using PolarisResolver_Resolve_query_failed [OF Inl] by simp
  next
    case (Inr resp)
    then show ?thesis
      using PolarisResolver_Resolve_query_answered [OF Inr] by auto
  qed
  from A B C D E F show ?thesis
    by blast
qed

text \<open>
  C2 at the registry of the examples: service \<open>ghost\<close> answers with an empty
  slice and service \<open>void\<close> with a nil one.
\<close>

theorem Resolve_no_instances_iff_witness:
  "consumer_GetInstances (consumer ex_polaris)
     \<lparr>req_Namespace = fst (SplitDescription (ex_deps True) ''default:ghost''),
      req_Service = snd (SplitDescription (ex_deps True) ''default:ghost'')\<rparr>
     = Inr \<lparr>GetInstances = Some []\<rparr>
   \<and> snd (Resolve (ex_deps True) ex_polaris ''default:ghost'') =
       Returned (zero_Result, Some (Errorf ''no instance remains for default:ghost''))
   \<and> consumer_GetInstances (consumer ex_polaris)
       \<lparr>req_Namespace = polarisDefaultNamespace, req_Service = ''void''\<rparr>
       = Inr \<lparr>GetInstances = None\<rparr>
   \<and> snd (PolarisResolver_Resolve ex_polaris ''void'') =
       Returned (zero_Result, Some (Errorf ''no instance remains for void''))"
proof -
  have q1: "consumer_GetInstances (consumer ex_polaris)
     \<lparr>req_Namespace = fst (SplitDescription (ex_deps True) ''default:ghost''),
      req_Service = snd (SplitDescription (ex_deps True) ''default:ghost'')\<rparr>
     = Inr \<lparr>GetInstances = Some []\<rparr>"
    by (simp add: ex_polaris_def ex_consumer_def ex_deps_def)
  have q2: "consumer_GetInstances (consumer ex_polaris)
       \<lparr>req_Namespace = polarisDefaultNamespace, req_Service = ''void''\<rparr>
       = Inr \<lparr>GetInstances = None\<rparr>"
    by (simp add: ex_polaris_def ex_consumer_def)
  from q1 have r1: "\<exists>resp. consumer_GetInstances (consumer ex_polaris)
     \<lparr>req_Namespace = fst (SplitDescription (ex_deps True) ''default:ghost''),
      req_Service = snd (SplitDescription (ex_deps True) ''default:ghost'')\<rparr> = Inr resp
     \<and> (GetInstances resp = None \<or> GetInstances resp = Some [])"
    by simp
  from q2 have r2: "\<exists>resp. consumer_GetInstances (consumer ex_polaris)
       \<lparr>req_Namespace = polarisDefaultNamespace, req_Service = ''void''\<rparr> = Inr resp
     \<and> (GetInstances resp = None \<or> GetInstances resp = Some [])"
    by simp
  have a: "snd (Resolve (ex_deps True) ex_polaris ''default:ghost'') =
       Returned (zero_Result, Some (Errorf (''no instance remains for '' @ ''default:ghost'')))"
    using Resolve_no_instances_iff [of "ex_deps True" ex_polaris "''default:ghost''"] r1
    by blast
  have b: "snd (PolarisResolver_Resolve ex_polaris ''void'') =
       Returned (zero_Result, Some (Errorf (''no instance remains for '' @ ''void'')))"
    using Resolve_no_instances_iff [of "ex_deps True" ex_polaris "''void''"] r2
    by blast
  from q1 q2 a b show ?thesis
    by simp
qed

text \<open>
  C3, as stated, fails. The registry of the examples errs on service
  \<open>broken\<close>. \<open>Resolve\<close> and \<open>Watcher\<close> make their one call; then, with a
  logger whose \<open>Fatalf\<close> ends the process, the process ends, and with a
  logger that returns, the nil response is read. Either way the caller receives
  neither a result nor an error.
\<close>

theorem registry_error_counterexample:
  "consumer_GetInstances (consumer ex_polaris)
     \<lparr>req_Namespace = ''default'', req_Service = ''broken''\<rparr>
     = Inl (ClientError ''unknown service'')
   \<and> Resolve (ex_deps True) ex_polaris ''default:broken'' =
       ([GetInstancesCall \<lparr>req_Namespace = ''default'', req_Service = ''broken''\<rparr>], Exited)
   \<and> Resolve (ex_deps False) ex_polaris ''default:broken'' =
       ([GetInstancesCall \<lparr>req_Namespace = ''default'', req_Service = ''broken''\<rparr>], Panicked)
   \<and> consumer_WatchService (consumer ex_polaris)
       \<lparr>Key = \<lparr>Namespace = ''default'', Service = ''broken''\<rparr>\<rparr>
       = Inl (ClientError ''unknown service'')
   \<and> Watcher (ex_deps True) ex_polaris CtxDone ''default:broken'' =
       ([WatchServiceCall \<lparr>Key = \<lparr>Namespace = ''default'', Service = ''broken''\<rparr>\<rparr>], Exited)
   \<and> Watcher (ex_deps False) ex_polaris CtxDone ''default:broken'' =
       ([WatchServiceCall \<lparr>Key = \<lparr>Namespace = ''default'', Service = ''broken''\<rparr>\<rparr>], Panicked)"
  by (simp add: Resolve_def Watcher_def ex_polaris_def ex_consumer_def ex_deps_def)

text \<open>
  C3, amended. When the registry call errs, the error is logged by \<open>Fatalf\<close>
  and no value is returned to the caller, neither a result nor an error:
  \<open>Resolve\<close> ends that way when the query errs, and \<open>Watcher\<close> when the call
  that opens the subscription errs, whatever the select would have chosen, so
  it does not return an empty successful change. The process is ended by the
  logger, or, with a logger that returns, by the read of the nil response. Each
  operation has made exactly one call to the registry client: there is no
  retry. \<open>Resolve\<close> of \<open>src/unnamed/part_000\<close> ends the process likewise.
\<close>

theorem registry_error_never_returned:
  "(consumer_GetInstances (consumer polaris)
      \<lparr>req_Namespace = fst (SplitDescription deps desc),
       req_Service = snd (SplitDescription deps desc)\<rparr> = Inl err
    \<longrightarrow> Resolve deps polaris desc =
          ([GetInstancesCall \<lparr>req_Namespace = fst (SplitDescription deps desc),
                              req_Service = snd (SplitDescription deps desc)\<rparr>],
           if Fatalf_exits deps then Exited else Panicked)
        \<and> (\<forall>v. snd (Resolve deps polaris desc) \<noteq> Returned v))
   \<and> (consumer_WatchService (consumer polaris)
        \<lparr>Key = \<lparr>Namespace = fst (SplitDescription deps desc),
                 Service = snd (SplitDescription deps desc)\<rparr>\<rparr> = Inl err
      \<longrightarrow> Watcher deps polaris sel desc =
            ([WatchServiceCall \<lparr>Key = \<lparr>Namespace = fst (SplitDescription deps desc),
                                       Service = snd (SplitDescription deps desc)\<rparr>\<rparr>],
             if Fatalf_exits deps then Exited else Panicked)
          \<and> (\<forall>v. snd (Watcher deps polaris sel desc) \<noteq> Returned v))
   \<and> (consumer_GetInstances (consumer polaris)
        \<lparr>req_Namespace = polarisDefaultNamespace, req_Service = desc\<rparr> = Inl err
      \<longrightarrow> PolarisResolver_Resolve polaris desc =
            ([GetInstancesCall \<lparr>req_Namespace = polarisDefaultNamespace, req_Service = desc\<rparr>],
             Exited))"
proof (intro conjI impI)
  assume a: "consumer_GetInstances (consumer polaris)
      \<lparr>req_Namespace = fst (SplitDescription deps desc),
       req_Service = snd (SplitDescription deps desc)\<rparr> = Inl err"
  show "Resolve deps polaris desc =
          ([GetInstancesCall \<lparr>req_Namespace = fst (SplitDescription deps desc),
                              req_Service = snd (SplitDescription deps desc)\<rparr>],
           if Fatalf_exits deps then Exited else Panicked)"
    using Resolve_calls [of deps polaris desc] Resolve_query_failed [OF a]
    by (simp add: prod_eq_iff)
  show "\<forall>v. snd (Resolve deps polaris desc) \<noteq> Returned v"
    using Resolve_query_failed [OF a] by simp
next
  assume a: "consumer_WatchService (consumer polaris)
        \<lparr>Key = \<lparr>Namespace = fst (SplitDescription deps desc),
                 Service = snd (SplitDescription deps desc)\<rparr>\<rparr> = Inl err"
  show "Watcher deps polaris sel desc =
            ([WatchServiceCall \<lparr>Key = \<lparr>Namespace = fst (SplitDescription deps desc),
                                       Service = snd (SplitDescription deps desc)\<rparr>\<rparr>],
             if Fatalf_exits deps then Exited else Panicked)"
    using Watcher_calls [of deps polaris sel desc] Watcher_open_failed [OF a, of sel]
    by (simp add: prod_eq_iff)
  show "\<forall>v. snd (Watcher deps polaris sel desc) \<noteq> Returned v"
    using Watcher_open_failed [OF a, of sel] by simp
next
  assume a: "consumer_GetInstances (consumer polaris)
        \<lparr>req_Namespace = polarisDefaultNamespace, req_Service = desc\<rparr> = Inl err"
  show "PolarisResolver_Resolve polaris desc =
            ([GetInstancesCall \<lparr>req_Namespace = polarisDefaultNamespace, req_Service = desc\<rparr>],
             Exited)"
    using PolarisResolver_Resolve_calls [of polaris desc]
      PolarisResolver_Resolve_query_failed [OF a]
    by (simp add: prod_eq_iff)
qed

text \<open>
  C3, amended, at the registry of the examples with a logger that returns.
\<close>

theorem registry_error_never_returned_witness:
  "consumer_GetInstances (consumer ex_polaris)
     \<lparr>req_Namespace = fst (SplitDescription (ex_deps False) ''default:broken''),
      req_Service = snd (SplitDescription (ex_deps False) ''default:broken'')\<rparr>
     = Inl (ClientError ''unknown service'')
   \<and> Resolve (ex_deps False) ex_polaris ''default:broken'' =
       ([GetInstancesCall \<lparr>req_Namespace = ''default'', req_Service = ''broken''\<rparr>], Panicked)
   \<and> consumer_WatchService (consumer ex_polaris)
       \<lparr>Key = \<lparr>Namespace = fst (SplitDescription (ex_deps False) ''default:broken''),
                Service = snd (SplitDescription (ex_deps False) ''default:broken'')\<rparr>\<rparr>
       = Inl (ClientError ''unknown service'')
   \<and> Watcher (ex_deps False) ex_polaris (Recv (InstanceEventPtr ex_add_event)) ''default:broken'' =
       ([WatchServiceCall \<lparr>Key = \<lparr>Namespace = ''default'', Service = ''broken''\<rparr>\<rparr>], Panicked)
   \<and> consumer_GetInstances (consumer ex_polaris)
       \<lparr>req_Namespace = polarisDefaultNamespace, req_Service = ''broken''\<rparr>
       = Inl (ClientError ''unknown service'')
   \<and> PolarisResolver_Resolve ex_polaris ''broken'' =
       ([GetInstancesCall \<lparr>req_Namespace = ''default'', req_Service = ''broken''\<rparr>], Exited)"
  using registry_error_never_returned [of ex_polaris "ex_deps False" "''default:broken''"
      "ClientError ''unknown service''" "Recv (InstanceEventPtr ex_add_event)"]
    registry_error_never_returned [of ex_polaris "ex_deps False" "''broken''"
      "ClientError ''unknown service''" CtxDone]
  by (simp add: ex_polaris_def ex_consumer_def ex_deps_def polarisDefaultNamespace_def)

text \<open>
  C4, as stated, fails for \<open>Target\<close> of \<open>src/unnamed/part_000\<close>: for the
  service \<open>orders\<close> without a namespace tag it gives \<open>orders\<close>, not the
  default namespace, the separator and \<open>orders\<close>.
\<close>

theorem Target_counterexample:
  "Tag \<lparr>ServiceName = ''orders'', Tag = Map.empty\<rparr> ''namespace'' = None
   \<and> PolarisResolver_Target \<lparr>ServiceName = ''orders'', Tag = Map.empty\<rparr> = ''orders''
   \<and> PolarisResolver_Target \<lparr>ServiceName = ''orders'', Tag = Map.empty\<rparr>
       \<noteq> polarisDefaultNamespace @ '':'' @ ''orders''"
  by (simp add: PolarisResolver_Target_def polarisDefaultNamespace_def)

text \<open>
  C4, amended. \<open>Target\<close> of \<open>src/resolver.go\<close> is a total function whose
  value is the namespace tag (the default namespace when the tag is absent),
  then \<open>:\<close>, then the service name; \<open>Target\<close> of \<open>src/unnamed/part_000\<close> is
  a total function whose value is the service name alone. For both, equal
  descriptors give equal strings, and a descriptor without namespace tag gives
  the same string as the descriptor tagged with the default namespace.
\<close>

theorem Target_canonical:
  "Target target =
     (case Tag target ''namespace'' of
        Some namespace \<Rightarrow> namespace
      | None \<Rightarrow> polarisDefaultNamespace) @ '':'' @ ServiceName target
   \<and> Target (target\<lparr>Tag := (Tag target)(''namespace'' := None)\<rparr>) =
       Target (target\<lparr>Tag := (Tag target)(''namespace'' \<mapsto> polarisDefaultNamespace)\<rparr>)
   \<and> PolarisResolver_Target target = ServiceName target
   \<and> PolarisResolver_Target (target\<lparr>Tag := (Tag target)(''namespace'' := None)\<rparr>) =
       PolarisResolver_Target
         (target\<lparr>Tag := (Tag target)(''namespace'' \<mapsto> polarisDefaultNamespace)\<rparr>)"
  by (simp add: Target_def PolarisResolver_Target_def WriteString_def split: option.splits)

text \<open>
  C4, amended, at the services \<open>orders\<close> without a tag and \<open>orders\<close> tagged
  with the namespace \<open>prod\<close>.
\<close>

theorem Target_canonical_witness:
  "Target \<lparr>ServiceName = ''orders'', Tag = Map.empty\<rparr> = ''default:orders''
   \<and> Target \<lparr>ServiceName = ''orders'', Tag = [''namespace'' \<mapsto> ''prod'']\<rparr> = ''prod:orders''
   \<and> PolarisResolver_Target \<lparr>ServiceName = ''orders'', Tag = [''namespace'' \<mapsto> ''prod'']\<rparr>
       = ''orders''"
  using Target_canonical [of "\<lparr>ServiceName = ''orders'', Tag = Map.empty\<rparr>"]
    Target_canonical [of "\<lparr>ServiceName = ''orders'', Tag = [''namespace'' \<mapsto> ''prod'']\<rparr>"]
  by (simp add: polarisDefaultNamespace_def)

text \<open>
  C5. In \<open>Resolve\<close> of \<open>src/unnamed/part_000\<close>, which translates inline, a
  query answered with instances returns their translations in the same order,
  and the weight of each translated instance is the default weight 10 when the
  instance reports a weight of 0 or less, and the reported weight when it is
  greater than 0.
\<close>

theorem translated_weight:
  assumes "consumer_GetInstances (consumer polaris)
             \<lparr>req_Namespace = polarisDefaultNamespace, req_Service = desc\<rparr> = Inr resp"
    and "GetInstances resp = Some instances"
    and "i < length instances"
  shows "snd (PolarisResolver_Resolve polaris desc) =
           Returned (\<lparr>Cacheable = True, CacheKey = desc,
                      Instances = map PolarisResolver_Resolve_body instances\<rparr>, None)
         \<and> weight (map PolarisResolver_Resolve_body instances ! i) =
             (if GetWeight (instances ! i) \<le> 0 then defaultWeight
              else GetWeight (instances ! i))
         \<and> defaultWeight = 10"
proof -
  have w: "weight (PolarisResolver_Resolve_body x) =
             (if GetWeight x \<le> 0 then defaultWeight else GetWeight x)" for x
    by (simp add: PolarisResolver_Resolve_body_def NewInstance_def Let_def)
  from assms(3) have ne: "instances \<noteq> []"
    by auto
  have "snd (PolarisResolver_Resolve polaris desc) =
          Returned (\<lparr>Cacheable = True, CacheKey = desc,
                     Instances = map PolarisResolver_Resolve_body instances\<rparr>, None)"
    using PolarisResolver_Resolve_query_answered [OF assms(1)] assms(2) ne
    by (simp add: nil_to_empty_def)
  with assms(3) w show ?thesis
    by (simp add: defaultWeight_def)
qed

text \<open>
  C5 at service \<open>orders\<close>: the weight 0 becomes 10 and the weight 5 stays.
\<close>

theorem translated_weight_witness:
  "consumer_GetInstances (consumer ex_polaris)
     \<lparr>req_Namespace = polarisDefaultNamespace, req_Service = ''orders''\<rparr>
     = Inr \<lparr>GetInstances = Some [ex_i1, ex_i2]\<rparr>
   \<and> GetWeight ([ex_i1, ex_i2] ! 0) = 0
   \<and> weight (map PolarisResolver_Resolve_body [ex_i1, ex_i2] ! 0) = 10
   \<and> GetWeight ([ex_i1, ex_i2] ! 1) = 5
   \<and> weight (map PolarisResolver_Resolve_body [ex_i1, ex_i2] ! 1) = 5
   \<and> snd (PolarisResolver_Resolve ex_polaris ''orders'') =
       Returned
         (\<lparr>Cacheable = True, CacheKey = ''orders'',
           Instances = map PolarisResolver_Resolve_body [ex_i1, ex_i2]\<rparr>, None)"
proof -
  have q: "consumer_GetInstances (consumer ex_polaris)
             \<lparr>req_Namespace = polarisDefaultNamespace, req_Service = ''orders''\<rparr>
           = Inr \<lparr>GetInstances = Some [ex_i1, ex_i2]\<rparr>"
    by (simp add: ex_polaris_def ex_consumer_def)
  have g: "GetInstances \<lparr>GetInstances = Some [ex_i1, ex_i2]\<rparr> = Some [ex_i1, ex_i2]"
    by simp
  have w: "GetWeight ([ex_i1, ex_i2] ! 0) = 0" "GetWeight ([ex_i1, ex_i2] ! 1) = 5"
    by (simp_all add: ex_i1_def ex_i2_def)
  have l: "(0::nat) < length [ex_i1, ex_i2]" "(1::nat) < length [ex_i1, ex_i2]"
    by simp_all
  from translated_weight [OF q g l(1)] translated_weight [OF q g l(2)] q w
  show ?thesis
    by (simp del: ex_body)
qed

text \<open>
  C6. A \<open>Watcher\<close> invocation whose subscription opened with a snapshot and
  whose select finds the context done before an event returns the zero change
  and a nil error.
\<close>

theorem Watcher_cancelled:
  assumes "consumer_WatchService (consumer polaris)
             \<lparr>Key = \<lparr>Namespace = fst (SplitDescription deps desc),
                      Service = snd (SplitDescription deps desc)\<rparr>\<rparr> = Inr watchRsp"
    and "GetAllInstancesResp watchRsp = Some allResp"
  shows "snd (Watcher deps polaris CtxDone desc) = Returned (zero_Change, None)"
  using Watcher_opened [OF assms, of CtxDone] by simp

text \<open>
  C6 at service \<open>orders\<close>.
\<close>

theorem Watcher_cancelled_witness:
  "consumer_WatchService (consumer ex_polaris)
     \<lparr>Key = \<lparr>Namespace = fst (SplitDescription (ex_deps True) ''default:orders''),
              Service = snd (SplitDescription (ex_deps True) ''default:orders'')\<rparr>\<rparr>
     = Inr \<lparr>GetAllInstancesResp = Some \<lparr>GetInstances = Some [ex_i1, ex_i2]\<rparr>\<rparr>
   \<and> snd (Watcher (ex_deps True) ex_polaris CtxDone ''default:orders'') =
       Returned
         (\<lparr>Result = \<lparr>Cacheable = False, CacheKey = [], Instances = []\<rparr>,
           Added = [], Updated = [], Removed = []\<rparr>, None)"
  using Watcher_cancelled [of ex_polaris "ex_deps True" "''default:orders''"
      "\<lparr>GetAllInstancesResp = Some \<lparr>GetInstances = Some [ex_i1, ex_i2]\<rparr>\<rparr>"
      "\<lparr>GetInstances = Some [ex_i1, ex_i2]\<rparr>"]
  by (simp add: ex_polaris_def ex_consumer_def ex_deps_def zero_Change_def zero_Result_def)

text \<open>
  C7. A \<open>Watcher\<close> invocation whose subscription opened with a snapshot and
  that receives an event whose kind is not \<open>EventInstance\<close> returns the zero
  change and a nil error.
\<close>

theorem Watcher_other_event:
  assumes "consumer_WatchService (consumer polaris)
             \<lparr>Key = \<lparr>Namespace = fst (SplitDescription deps desc),
                      Service = snd (SplitDescription deps desc)\<rparr>\<rparr> = Inr watchRsp"
    and "GetAllInstancesResp watchRsp = Some allResp"
    and "GetSubScribeEventType event \<noteq> EventInstance"
  shows "snd (Watcher deps polaris (Recv event) desc) = Returned (zero_Change, None)"
  using Watcher_opened [OF assms(1,2), of "Recv event"] assms(3)
  by (cases event) simp_all

text \<open>
  C7 at service \<open>orders\<close> and an event of another kind.
\<close>

theorem Watcher_other_event_witness:
  "consumer_WatchService (consumer ex_polaris)
     \<lparr>Key = \<lparr>Namespace = fst (SplitDescription (ex_deps True) ''default:orders''),
              Service = snd (SplitDescription (ex_deps True) ''default:orders'')\<rparr>\<rparr>
     = Inr \<lparr>GetAllInstancesResp = Some \<lparr>GetInstances = Some [ex_i1, ex_i2]\<rparr>\<rparr>
   \<and> GetSubScribeEventType (OtherEvent (EventOther 2)) \<noteq> EventInstance
   \<and> snd (Watcher (ex_deps True) ex_polaris (Recv (OtherEvent (EventOther 2))) ''default:orders'') =
       Returned
         (\<lparr>Result = \<lparr>Cacheable = False, CacheKey = [], Instances = []\<rparr>,
           Added = [], Updated = [], Removed = []\<rparr>, None)"
  using Watcher_other_event [of ex_polaris "ex_deps True" "''default:orders''"
      "\<lparr>GetAllInstancesResp = Some \<lparr>GetInstances = Some [ex_i1, ex_i2]\<rparr>\<rparr>"
      "\<lparr>GetInstances = Some [ex_i1, ex_i2]\<rparr>" "OtherEvent (EventOther 2)"]
  by (simp add: ex_polaris_def ex_consumer_def ex_deps_def zero_Change_def zero_Result_def)

text \<open>
  C8. When the query for the key answers with a slice of at least one
  instance, \<open>Resolve\<close> of \<open>src/resolver.go\<close> returns, with a nil error, the
  result that is cacheable, whose cache key is the description it was called
  with, and whose instances are the translations of the registry's instances
  in the registry's order.
\<close>

theorem Resolve_success:
  assumes "consumer_GetInstances (consumer polaris)
             \<lparr>req_Namespace = fst (SplitDescription deps desc),
              req_Service = snd (SplitDescription deps desc)\<rparr> = Inr resp"
    and "GetInstances resp = Some instances"
    and "instances \<noteq> []"
  shows "snd (Resolve deps polaris desc) =
           Returned (\<lparr>Cacheable = True, CacheKey = desc,
                      Instances = map (ChangePolarisInstanceToKitex deps) instances\<rparr>, None)"
  using Resolve_query_answered [OF assms(1)] assms(2,3) by (simp add: nil_to_empty_def)

text \<open>
  C8 at the specification's scenario: key \<open>default:orders\<close>.
\<close>

theorem Resolve_success_witness:
  "consumer_GetInstances (consumer ex_polaris)
     \<lparr>req_Namespace = fst (SplitDescription (ex_deps True) ''default:orders''),
      req_Service = snd (SplitDescription (ex_deps True) ''default:orders'')\<rparr>
     = Inr \<lparr>GetInstances = Some [ex_i1, ex_i2]\<rparr>
   \<and> [ex_i1, ex_i2] \<noteq> []
   \<and> snd (Resolve (ex_deps True) ex_polaris ''default:orders'') =
       Returned
         (\<lparr>Cacheable = True, CacheKey = ''default:orders'',
           Instances =
             [\<lparr>network = ''tcp'', address = ''10.0.0.1:8080'', weight = 10, tags = Map.empty\<rparr>,
              \<lparr>network = ''tcp'', address = ''10.0.0.2:8080'', weight = 5, tags = Map.empty\<rparr>]\<rparr>,
          None)"
  using Resolve_success [of ex_polaris "ex_deps True" "''default:orders''"
      "\<lparr>GetInstances = Some [ex_i1, ex_i2]\<rparr>" "[ex_i1, ex_i2]"]
  by (simp add: ex_polaris_def ex_consumer_def ex_deps_def)

text \<open>
  C9, as stated, fails for the snapshot step of \<open>Watcher\<close>. Service \<open>ghost\<close>
  has no instance; a watch on it that receives an instance event returns, with
  a nil error, a change whose result has no instances.
\<close>

theorem nonempty_endpoints_counterexample:
  "consumer_WatchService (consumer ex_polaris)
     \<lparr>Key = \<lparr>Namespace = ''default'', Service = ''ghost''\<rparr>\<rparr>
     = Inr \<lparr>GetAllInstancesResp = Some \<lparr>GetInstances = Some []\<rparr>\<rparr>
   \<and> snd (Watcher (ex_deps True) ex_polaris (Recv (InstanceEventPtr ex_add_event))
            ''default:ghost'') =
       Returned
         (\<lparr>Result = \<lparr>Cacheable = True, CacheKey = ''default:ghost'', Instances = []\<rparr>,
           Added = [\<lparr>network = ''tcp'', address = ''10.0.0.3:9090'', weight = 10,
                     tags = Map.empty\<rparr>],
           Updated = [], Removed = []\<rparr>,
          None)"
  by (simp add: Watcher_def ex_polaris_def ex_consumer_def ex_deps_def ex_add_event_def)

text \<open>
  C9, amended. No result that \<open>Resolve\<close> returns with a nil error has an
  empty list of instances: when the registry answers with no instance,
  \<open>Resolve\<close> returns the error \<open>no instance remains for\<close> the description
  instead. The snapshot step of \<open>Watcher\<close> makes no such check: when the
  subscription's snapshot has no instance, the change returned for an instance
  event carries, with a nil error, the cacheable result keyed by the description
  and without instances.
\<close>

theorem nonempty_endpoints_of_Resolve:
  "\<not> (\<exists>res err. snd (Resolve deps polaris desc) = Returned (res, err)
                  \<and> err = None \<and> Instances res = [])
   \<and> (consumer_GetInstances (consumer polaris)
        \<lparr>req_Namespace = fst (SplitDescription deps desc),
         req_Service = snd (SplitDescription deps desc)\<rparr> = Inr resp
      \<and> nil_to_empty (GetInstances resp) = []
      \<longrightarrow> snd (Resolve deps polaris desc) =
            Returned (zero_Result, Some (Errorf (''no instance remains for '' @ desc))))
   \<and> (consumer_WatchService (consumer polaris)
        \<lparr>Key = \<lparr>Namespace = fst (SplitDescription deps desc),
                 Service = snd (SplitDescription deps desc)\<rparr>\<rparr> = Inr watchRsp
      \<and> GetAllInstancesResp watchRsp = Some allResp
      \<and> nil_to_empty (GetInstances allResp) = []
      \<longrightarrow> (\<exists>change. snd (Watcher deps polaris (Recv (InstanceEventPtr insEvent)) desc) =
                      Returned (change, None)
                  \<and> Result change = \<lparr>Cacheable = True, CacheKey = desc, Instances = []\<rparr>))"
proof (intro conjI impI)
  show "\<not> (\<exists>res err. snd (Resolve deps polaris desc) = Returned (res, err)
                  \<and> err = None \<and> Instances res = [])"
  proof (cases "consumer_GetInstances (consumer polaris)
        \<lparr>req_Namespace = fst (SplitDescription deps desc),
         req_Service = snd (SplitDescription deps desc)\<rparr>")
    case (Inl err)
    then show ?thesis
      using Resolve_query_failed [OF Inl] by simp
  next
    case (Inr r)
    then show ?thesis
      using Resolve_query_answered [OF Inr] by auto
  qed
next
  assume "consumer_GetInstances (consumer polaris)
        \<lparr>req_Namespace = fst (SplitDescription deps desc),
         req_Service = snd (SplitDescription deps desc)\<rparr> = Inr resp
      \<and> nil_to_empty (GetInstances resp) = []"
  then show "snd (Resolve deps polaris desc) =
            Returned (zero_Result, Some (Errorf (''no instance remains for '' @ desc)))"
    using Resolve_query_answered [of polaris deps desc resp] by simp
next
  assume a: "consumer_WatchService (consumer polaris)
        \<lparr>Key = \<lparr>Namespace = fst (SplitDescription deps desc),
                 Service = snd (SplitDescription deps desc)\<rparr>\<rparr> = Inr watchRsp
      \<and> GetAllInstancesResp watchRsp = Some allResp
      \<and> nil_to_empty (GetInstances allResp) = []"
  then show "\<exists>change. snd (Watcher deps polaris (Recv (InstanceEventPtr insEvent)) desc) =
                      Returned (change, None)
                  \<and> Result change = \<lparr>Cacheable = True, CacheKey = desc, Instances = []\<rparr>"
    using Watcher_opened [of polaris deps desc watchRsp allResp "Recv (InstanceEventPtr insEvent)"]
    by simp
qed

text \<open>
  C9, amended, at service \<open>ghost\<close>.
\<close>

theorem nonempty_endpoints_of_Resolve_witness:
  "consumer_GetInstances (consumer ex_polaris)
     \<lparr>req_Namespace = fst (SplitDescription (ex_deps True) ''default:ghost''),
      req_Service = snd (SplitDescription (ex_deps True) ''default:ghost'')\<rparr>
     = Inr \<lparr>GetInstances = Some []\<rparr>
   \<and> nil_to_empty (GetInstances \<lparr>GetInstances = Some []\<rparr>) = []
   \<and> snd (Resolve (ex_deps True) ex_polaris ''default:ghost'') =
       Returned (zero_Result, Some (Errorf ''no instance remains for default:ghost''))
   \<and> consumer_WatchService (consumer ex_polaris)
       \<lparr>Key = \<lparr>Namespace = fst (SplitDescription (ex_deps True) ''default:ghost''),
                Service = snd (SplitDescription (ex_deps True) ''default:ghost'')\<rparr>\<rparr>
       = Inr \<lparr>GetAllInstancesResp = Some \<lparr>GetInstances = Some []\<rparr>\<rparr>
   \<and> (\<exists>change. snd (Watcher (ex_deps True) ex_polaris (Recv (InstanceEventPtr ex_add_event))
                     ''default:ghost'') = Returned (change, None)
          \<and> Result change =
              \<lparr>Cacheable = True, CacheKey = ''default:ghost'', Instances = []\<rparr>)"
  using nonempty_endpoints_of_Resolve [of "ex_deps True" ex_polaris "''default:ghost''"
      "\<lparr>GetInstances = Some []\<rparr>"
      "\<lparr>GetAllInstancesResp = Some \<lparr>GetInstances = Some []\<rparr>\<rparr>"
      "\<lparr>GetInstances = Some []\<rparr>" ex_add_event]
  by (simp add: ex_polaris_def ex_consumer_def ex_deps_def nil_to_empty_def)

text \<open>
  C10. A \<open>Watcher\<close> invocation whose subscription opened with a snapshot and
  that receives an instance event whose three sub-events are nil returns, with
  a nil error, a change that is not the zero change: its result is the one
  built from the snapshot, and its added, updated and removed lists are empty.
  An event of another kind gives the zero change.
\<close>

theorem Watcher_bare_instance_event:
  assumes "consumer_WatchService (consumer polaris)
             \<lparr>Key = \<lparr>Namespace = fst (SplitDescription deps desc),
                      Service = snd (SplitDescription deps desc)\<rparr>\<rparr> = Inr watchRsp"
    and "GetAllInstancesResp watchRsp = Some allResp"
    and "AddEvent insEvent = None"
    and "UpdateEvent insEvent = None"
    and "DeleteEvent insEvent = None"
  shows "snd (Watcher deps polaris (Recv (InstanceEventPtr insEvent)) desc) =
           Returned
             (\<lparr>Result = \<lparr>Cacheable = True, CacheKey = desc,
                          Instances = map (ChangePolarisInstanceToKitex deps)
                                        (nil_to_empty (GetInstances allResp))\<rparr>,
               Added = [], Updated = [], Removed = []\<rparr>,
              None)
         \<and> snd (Watcher deps polaris (Recv (InstanceEventPtr insEvent)) desc)
             \<noteq> Returned (zero_Change, None)
         \<and> snd (Watcher deps polaris (Recv (OtherEvent (EventOther k))) desc)
             = Returned (zero_Change, None)"
  using Watcher_opened [OF assms(1,2), of "Recv (InstanceEventPtr insEvent)"]
    Watcher_opened [OF assms(1,2), of "Recv (OtherEvent (EventOther k))"] assms(3,4,5)
  by (simp add: zero_Change_def zero_Result_def)

text \<open>
  C10 at service \<open>void\<close>, whose snapshot is a nil slice.
\<close>

theorem Watcher_bare_instance_event_witness:
  "consumer_WatchService (consumer ex_polaris)
     \<lparr>Key = \<lparr>Namespace = fst (SplitDescription (ex_deps True) ''default:void''),
              Service = snd (SplitDescription (ex_deps True) ''default:void'')\<rparr>\<rparr>
     = Inr \<lparr>GetAllInstancesResp = Some \<lparr>GetInstances = None\<rparr>\<rparr>
   \<and> AddEvent ex_no_event = None \<and> UpdateEvent ex_no_event = None
   \<and> DeleteEvent ex_no_event = None
   \<and> snd (Watcher (ex_deps True) ex_polaris (Recv (InstanceEventPtr ex_no_event))
            ''default:void'') =
       Returned
         (\<lparr>Result = \<lparr>Cacheable = True, CacheKey = ''default:void'', Instances = []\<rparr>,
           Added = [], Updated = [], Removed = []\<rparr>, None)
   \<and> snd (Watcher (ex_deps True) ex_polaris (Recv (InstanceEventPtr ex_no_event))
            ''default:void'') \<noteq> Returned (zero_Change, None)"
  using Watcher_bare_instance_event [of ex_polaris "ex_deps True" "''default:void''"
      "\<lparr>GetAllInstancesResp = Some \<lparr>GetInstances = None\<rparr>\<rparr>"
      "\<lparr>GetInstances = None\<rparr>" ex_no_event 0]
  by (simp add: ex_polaris_def ex_consumer_def ex_deps_def ex_no_event_def nil_to_empty_def
        zero_Change_def zero_Result_def)

end
